theory Spec2Isabelle
  imports Main "HOL-Library.Word"
begin

unbundle bit_operations_syntax

section \<open>Bytes, errors and the byte reader\<close>

type_synonym byte = "8 word"
type_synonym u16 = "16 word"
type_synonym u32 = "32 word"
type_synonym u64 = "64 word"

text \<open>A Go string is a byte sequence. Strings cut out of the blob are kept as byte lists;
  opcode names, which come from the C-string service, are HOL strings.\<close>

type_synonym gostring = "byte list"

text \<open>The two errors of package io that a short read produces.\<close>

datatype ioerr = EOF | ErrUnexpectedEOF

text \<open>One constructor for each place of sandbox.go that returns an error: the
  \<^verbatim>\<open>fmt.Errorf\<close> sites carry the wrapped io error (and the index or name they print),
  \<^verbatim>\<open>Bare\<close> is an io error returned as it is, \<^verbatim>\<open>External\<close> is an error of a Mach-O
  service, and \<^verbatim>\<open>IndexOutOfRange\<close> and \<^verbatim>\<open>NilDereference\<close> are the run-time panics of
  an index past the end of a slice and of a field read through a nil pointer.\<close>

datatype error =
    ErrCollection ioerr
  | ErrRegexOffsets ioerr
  | ErrGlobalOffsets ioerr
  | ErrMsgOffsets ioerr
  | ErrProfiles ioerr
  | ErrNameOffset nat ioerr
  | ErrVersion nat ioerr
  | ErrOpIndex string ioerr
  | ErrNameLength nat ioerr
  | ErrOpNodeOffsets ioerr
  | ErrGlobalLength ioerr
  | ErrRegexLength ioerr
  | Bare ioerr
  | External string
  | IndexOutOfRange
  | NilDereference

text \<open>\<^verbatim>\<open>binary.LittleEndian\<close>: the first byte is the least significant.\<close>

fun le_word :: "byte list \<Rightarrow> 'a::len word" where
  "le_word [] = 0"
| "le_word (b # bs) = ucast b OR push_bit 8 (le_word bs)"

fun u16s_of :: "byte list \<Rightarrow> u16 list" where
  "u16s_of (a # b # rest) = le_word [a, b] # u16s_of rest"
| "u16s_of _ = []"

text \<open>\<^verbatim>\<open>io.ReadFull\<close> on a \<^verbatim>\<open>bytes.Reader\<close> over \<open>s\<close> at position \<open>pos\<close>, as
  \<^verbatim>\<open>binary.Read\<close> calls it for \<open>n\<close> bytes: nothing is read for \<open>n = 0\<close>; at or past
  the end the error is EOF; with fewer than \<open>n\<close> bytes left it is ErrUnexpectedEOF.\<close>

definition readFull :: "byte list \<Rightarrow> nat \<Rightarrow> nat \<Rightarrow> ioerr + (byte list \<times> nat)" where
  "readFull s pos n =
     (if n = 0 then Inr ([], pos)
      else if length s \<le> pos then Inl EOF
      else if length s - pos < n then Inl ErrUnexpectedEOF
      else Inr (take n (drop pos s), pos + n))"

text \<open>\<^verbatim>\<open>(*bytes.Reader).Read\<close> into a fresh zeroed buffer of \<open>n\<close> bytes: EOF at or past
  the end (also for \<open>n = 0\<close>); otherwise whatever is left is copied, with no error, and
  the rest of the buffer keeps its zeros.\<close>

definition reader_Read :: "byte list \<Rightarrow> nat \<Rightarrow> nat \<Rightarrow> ioerr + (byte list \<times> nat)" where
  "reader_Read s pos n =
     (if length s \<le> pos then Inl EOF
      else let got = take n (drop pos s)
           in Inr (got @ replicate (n - length got) 0, pos + length got))"

definition read_u16 :: "byte list \<Rightarrow> nat \<Rightarrow> ioerr + (u16 \<times> nat)" where
  "read_u16 s pos =
     (case readFull s pos 2 of Inl e \<Rightarrow> Inl e | Inr (bs, pos') \<Rightarrow> Inr (le_word bs, pos'))"

definition read_u64 :: "byte list \<Rightarrow> nat \<Rightarrow> ioerr + (u64 \<times> nat)" where
  "read_u64 s pos =
     (case readFull s pos 8 of Inl e \<Rightarrow> Inl e | Inr (bs, pos') \<Rightarrow> Inr (le_word bs, pos'))"

definition read_u16s :: "byte list \<Rightarrow> nat \<Rightarrow> nat \<Rightarrow> ioerr + (u16 list \<times> nat)" where
  "read_u16s s pos n =
     (case readFull s pos (2 * n) of Inl e \<Rightarrow> Inl e | Inr (bs, pos') \<Rightarrow> Inr (u16s_of bs, pos'))"

text \<open>\<^verbatim>\<open>strings.Trim(s, "\x00")\<close>: NUL bytes are cut from the right end, then from the
  left end.\<close>

definition trim_nul :: "gostring \<Rightarrow> gostring" where
  "trim_nul xs = dropWhile (\<lambda>b. b = 0) (rev (dropWhile (\<lambda>b. b = 0) (rev xs)))"

section \<open>The data model of sandbox.go\<close>

record SandboxProfileCollection =
  Version :: u16
  OpNodeSize :: u16
  OpCount :: byte
  GlobalVarCount :: byte
  ProfileCount :: u16
  RegexItemCount :: u16
  MsgItemCount :: u16

record SandboxOperation =
  opName :: string
  opIndex :: u16
  opValue :: u64

record SandboxProfile =
  spName :: gostring
  spVersion :: u16
  Operations :: "SandboxOperation list"

record Sandbox =
  Globals :: "u16 \<rightharpoonup> gostring"
  Regexes :: "u16 \<rightharpoonup> byte list"
  OpNodes :: "u16 \<rightharpoonup> u64"
  Profiles :: "SandboxProfile list"

section \<open>ParseSandboxCollection\<close>

text \<open>\<^verbatim>\<open>binary.Read(r, binary.LittleEndian, &collection)\<close>: the struct has no padding
  in the encoding, so its size is 2 + 2 + 1 + 1 + 2 + 2 + 2 bytes.\<close>

definition collection_size :: nat where
  "collection_size = 2 + 2 + 1 + 1 + 2 + 2 + 2"

definition decode_collection :: "byte list \<Rightarrow> SandboxProfileCollection" where
  "decode_collection bs =
     \<lparr>Version = le_word (take 2 bs),
      OpNodeSize = le_word (take 2 (drop 2 bs)),
      OpCount = le_word (take 1 (drop 4 bs)),
      GlobalVarCount = le_word (take 1 (drop 5 bs)),
      ProfileCount = le_word (take 2 (drop 6 bs)),
      RegexItemCount = le_word (take 2 (drop 8 bs)),
      MsgItemCount = le_word (take 2 (drop 10 bs))\<rparr>"

definition read_collection ::
  "byte list \<Rightarrow> nat \<Rightarrow> ioerr + (SandboxProfileCollection \<times> nat)" where
  "read_collection s pos =
     (case readFull s pos collection_size of
        Inl e \<Rightarrow> Inl e
      | Inr (bs, pos') \<Rightarrow> Inr (decode_collection bs, pos'))"

text \<open>\<^verbatim>\<open>uint32(collection.OpCount+uint8(binary.Size(uint16(0)))) * 2\<close>: the sum is taken
  in uint8 and widened afterwards.\<close>

definition profileSize :: "SandboxProfileCollection \<Rightarrow> u32" where
  "profileSize c = ucast (OpCount c + (2 :: byte)) * 2"

definition globalVarStart :: "SandboxProfileCollection \<Rightarrow> u32" where
  "globalVarStart c = 2 * ucast (RegexItemCount c) + 12"

definition globalVarEnd :: "SandboxProfileCollection \<Rightarrow> u32" where
  "globalVarEnd c = globalVarStart c + 2 * ucast (GlobalVarCount c)"

definition opNodeStartTmp :: "SandboxProfileCollection \<Rightarrow> u32" where
  "opNodeStartTmp c =
     globalVarEnd c + 2 * ucast (MsgItemCount c) + profileSize c * ucast (ProfileCount c)"

text \<open>The delta of the op-node start, and the op-node start, as functions of the
  temporary start (lines 345 to 352).\<close>

definition opNodeStartDelta :: "u32 \<Rightarrow> u32" where
  "opNodeStartDelta tmp = (if tmp AND 6 = 0 then 0 else 8 - (tmp AND 6))"

definition align :: "u32 \<Rightarrow> u32" where
  "align tmp = opNodeStartDelta tmp + tmp"

definition opNodeStart :: "SandboxProfileCollection \<Rightarrow> u32" where
  "opNodeStart c = align (opNodeStartTmp c)"

definition baseAddr :: "SandboxProfileCollection \<Rightarrow> u32" where
  "baseAddr c = opNodeStart c + ucast (OpNodeSize c) * 8"

text \<open>The header and the three offset tables, read one after the other from the start
  of the blob. The result holds the reader's position after the tables.\<close>

definition read_tables ::
  "byte list \<Rightarrow> error + (SandboxProfileCollection \<times> u16 list \<times> u16 list \<times> u16 list \<times> nat)" where
  "read_tables data =
     (case read_collection data 0 of
        Inl e \<Rightarrow> Inl (ErrCollection e)
      | Inr (collection, p1) \<Rightarrow>
     (case read_u16s data p1 (unat (RegexItemCount collection)) of
        Inl e \<Rightarrow> Inl (ErrRegexOffsets e)
      | Inr (regexOffsets, p2) \<Rightarrow>
     (case read_u16s data p2 (unat (GlobalVarCount collection)) of
        Inl e \<Rightarrow> Inl (ErrGlobalOffsets e)
      | Inr (globalOffsets, p3) \<Rightarrow>
     (case read_u16s data p3 (unat (MsgItemCount collection)) of
        Inl e \<Rightarrow> Inl (ErrMsgOffsets e)
      | Inr (msgOffsets, p4) \<Rightarrow>
          Inr (collection, regexOffsets, globalOffsets, msgOffsets, p4)))))"

text \<open>The loop of lines 360 to 366: \<open>n\<close> records of \<open>sz\<close> bytes each.\<close>

fun read_profileDatas ::
  "byte list \<Rightarrow> nat \<Rightarrow> nat \<Rightarrow> nat \<Rightarrow> error + (byte list list \<times> nat)" where
  "read_profileDatas s pos sz 0 = Inr ([], pos)"
| "read_profileDatas s pos sz (Suc n) =
     (case readFull s pos sz of
        Inl e \<Rightarrow> Inl (ErrProfiles e)
      | Inr (profile, pos') \<Rightarrow>
          (case read_profileDatas s pos' sz n of
             Inl e \<Rightarrow> Inl e
           | Inr (rest, pos'') \<Rightarrow> Inr (profile # rest, pos'')))"

text \<open>The loop of lines 382 to 389 over the reader \<open>pr\<close> of one profile record:
  \<open>i\<close> counts up to \<open>OpCount\<close>, \<open>k\<close> is what is left to do. \<^verbatim>\<open>opsList[i]\<close> is evaluated
  before the read and panics past the end of the list.\<close>

fun read_operations ::
  "byte list \<Rightarrow> nat \<Rightarrow> string list \<Rightarrow> nat \<Rightarrow> nat \<Rightarrow> error + SandboxOperation list" where
  "read_operations prof pos opsList i 0 = Inr []"
| "read_operations prof pos opsList i (Suc k) =
     (if length opsList \<le> i then Inl IndexOutOfRange
      else (case read_u16 prof pos of
              Inl e \<Rightarrow> Inl (ErrOpIndex (opsList ! i) e)
            | Inr (idx, pos') \<Rightarrow>
                (case read_operations prof pos' opsList (Suc i) k of
                   Inl e \<Rightarrow> Inl e
                 | Inr rest \<Rightarrow>
                     Inr (\<lparr>opName = opsList ! i, opIndex = idx, opValue = 0\<rparr> # rest))))"

text \<open>A length-prefixed item at an absolute position of the blob: a u16 length read by
  \<^verbatim>\<open>binary.Read\<close>, then the body read by \<^verbatim>\<open>r.Read\<close> into a buffer of that length.\<close>

definition read_item ::
  "byte list \<Rightarrow> nat \<Rightarrow> (ioerr \<Rightarrow> error) \<Rightarrow> error + byte list" where
  "read_item data pos lenErr =
     (case read_u16 data pos of
        Inl e \<Rightarrow> Inl (lenErr e)
      | Inr (len, pos') \<Rightarrow>
          (case reader_Read data pos' (unat len) of
             Inl e \<Rightarrow> Inl (Bare e)
           | Inr (str, _) \<Rightarrow> Inr str))"

text \<open>The position \<^verbatim>\<open>baseAddr+8*uint32(off)\<close> of a named item, computed in uint32.\<close>

definition item_pos :: "u32 \<Rightarrow> u16 \<Rightarrow> nat" where
  "item_pos base off = unat (base + 8 * ucast off)"

text \<open>One round of the loop of lines 368 to 406.\<close>

definition parse_profile ::
  "byte list \<Rightarrow> SandboxProfileCollection \<Rightarrow> string list \<Rightarrow> nat \<Rightarrow> byte list
     \<Rightarrow> error + SandboxProfile" where
  "parse_profile data c opsList idx prof =
     (case read_u16 prof 0 of
        Inl e \<Rightarrow> Inl (ErrNameOffset idx e)
      | Inr (nameOffset, p1) \<Rightarrow>
     (case read_u16 prof p1 of
        Inl e \<Rightarrow> Inl (ErrVersion idx e)
      | Inr (version, p2) \<Rightarrow>
     (case read_operations prof p2 opsList 0 (unat (OpCount c)) of
        Inl e \<Rightarrow> Inl e
      | Inr ops \<Rightarrow>
     (case read_item data (item_pos (baseAddr c) nameOffset) (ErrNameLength idx) of
        Inl e \<Rightarrow> Inl e
      | Inr str \<Rightarrow>
          Inr \<lparr>spName = trim_nul str, spVersion = version, Operations = ops\<rparr>))))"

fun parse_profiles ::
  "byte list \<Rightarrow> SandboxProfileCollection \<Rightarrow> string list \<Rightarrow> nat \<Rightarrow> byte list list
     \<Rightarrow> error + SandboxProfile list" where
  "parse_profiles data c opsList idx [] = Inr []"
| "parse_profiles data c opsList idx (prof # profs) =
     (case parse_profile data c opsList idx prof of
        Inl e \<Rightarrow> Inl e
      | Inr sp \<Rightarrow>
          (case parse_profiles data c opsList (Suc idx) profs of
             Inl e \<Rightarrow> Inl e
           | Inr sps \<Rightarrow> Inr (sp # sps)))"

text \<open>The loop of lines 420 to 428 over the op-node offsets: each offset is an absolute
  position of the blob where a u64 is read; the value is appended to the slice
  \<open>opNodes\<close> and stored in the map under its offset.\<close>

fun read_opNodes ::
  "byte list \<Rightarrow> u16 list \<Rightarrow> u64 list \<Rightarrow> (u16 \<rightharpoonup> u64) \<Rightarrow> error + (u64 list \<times> (u16 \<rightharpoonup> u64))" where
  "read_opNodes data [] opNodes m = Inr (opNodes, m)"
| "read_opNodes data (opoff # offs) opNodes m =
     (case read_u64 data (unat opoff) of
        Inl e \<Rightarrow> Inl (ErrOpNodeOffsets e)
      | Inr (opNodeValue, _) \<Rightarrow>
          read_opNodes data offs (opNodes @ [opNodeValue]) (m(opoff \<mapsto> opNodeValue)))"

text \<open>The loops of lines 430 to 434: \<^verbatim>\<open>opNodes[o.Index]\<close> panics past the end of the
  slice.\<close>

fun set_values :: "u64 list \<Rightarrow> SandboxOperation list \<Rightarrow> error + SandboxOperation list" where
  "set_values opNodes [] = Inr []"
| "set_values opNodes (o1 # os) =
     (if length opNodes \<le> unat (opIndex o1) then Inl IndexOutOfRange
      else (case set_values opNodes os of
              Inl e \<Rightarrow> Inl e
            | Inr os' \<Rightarrow> Inr (o1\<lparr>opValue := opNodes ! unat (opIndex o1)\<rparr> # os')))"

fun set_profile_values ::
  "u64 list \<Rightarrow> SandboxProfile list \<Rightarrow> error + SandboxProfile list" where
  "set_profile_values opNodes [] = Inr []"
| "set_profile_values opNodes (p # ps) =
     (case set_values opNodes (Operations p) of
        Inl e \<Rightarrow> Inl e
      | Inr os' \<Rightarrow>
          (case set_profile_values opNodes ps of
             Inl e \<Rightarrow> Inl e
           | Inr ps' \<Rightarrow> Inr (p\<lparr>Operations := os'\<rparr> # ps')))"

text \<open>The loop of lines 455 to 470.\<close>

fun read_globals ::
  "byte list \<Rightarrow> u32 \<Rightarrow> u16 list \<Rightarrow> (u16 \<rightharpoonup> gostring) \<Rightarrow> error + (u16 \<rightharpoonup> gostring)" where
  "read_globals data base [] m = Inr m"
| "read_globals data base (goff # offs) m =
     (case read_item data (item_pos base goff) ErrGlobalLength of
        Inl e \<Rightarrow> Inl e
      | Inr str \<Rightarrow> read_globals data base offs (m(goff \<mapsto> trim_nul str)))"

text \<open>The loop of lines 472 to 489.\<close>

fun read_regexes ::
  "byte list \<Rightarrow> u32 \<Rightarrow> u16 list \<Rightarrow> (u16 \<rightharpoonup> byte list) \<Rightarrow> error + (u16 \<rightharpoonup> byte list)" where
  "read_regexes data base [] m = Inr m"
| "read_regexes data base (roff # offs) m =
     (case read_item data (item_pos base roff) ErrRegexLength of
        Inl e \<Rightarrow> Inl e
      | Inr str \<Rightarrow> read_regexes data base offs (m(roff \<mapsto> str)))"

text \<open>Lines 412 to 428: the op-node offsets are read at \<open>opNodeStart\<close>; the slice
  \<open>opNodes\<close> is made with \<open>opNodeCount\<close> zeros and the values are appended to it.\<close>

definition opNodeCount :: "SandboxProfileCollection \<Rightarrow> u32" where
  "opNodeCount c = (baseAddr c - opNodeStart c) div 8"

definition load_opNodes ::
  "byte list \<Rightarrow> SandboxProfileCollection \<Rightarrow> error + (u64 list \<times> (u16 \<rightharpoonup> u64))" where
  "load_opNodes data c =
     (case read_u16s data (unat (opNodeStart c)) (unat (opNodeCount c)) of
        Inl e \<Rightarrow> Inl (ErrOpNodeOffsets e)
      | Inr (opNodeOffsets, _) \<Rightarrow>
          read_opNodes data opNodeOffsets (replicate (unat (opNodeCount c)) 0) Map.empty)"

definition ParseSandboxCollection :: "byte list \<Rightarrow> string list \<Rightarrow> error + Sandbox" where
  "ParseSandboxCollection data opsList =
     (case read_tables data of
        Inl e \<Rightarrow> Inl e
      | Inr (collection, regexOffsets, globalOffsets, msgOffsets, p4) \<Rightarrow>
     (case read_profileDatas data p4 (unat (profileSize collection))
             (unat (ProfileCount collection)) of
        Inl e \<Rightarrow> Inl e
      | Inr (profileDatas, _) \<Rightarrow>
     (case parse_profiles data collection opsList 0 profileDatas of
        Inl e \<Rightarrow> Inl e
      | Inr profiles \<Rightarrow>
     (case load_opNodes data collection of
        Inl e \<Rightarrow> Inl e
      | Inr (opNodes, nodeMap) \<Rightarrow>
     (case set_profile_values opNodes profiles of
        Inl e \<Rightarrow> Inl e
      | Inr profiles' \<Rightarrow>
     (case read_globals data (baseAddr collection) globalOffsets Map.empty of
        Inl e \<Rightarrow> Inl e
      | Inr globals \<Rightarrow>
     (case read_regexes data (baseAddr collection) regexOffsets Map.empty of
        Inl e \<Rightarrow> Inl e
      | Inr regexes \<Rightarrow>
          Inr \<lparr>Globals = globals, Regexes = regexes, OpNodes = nodeMap,
               Profiles = profiles'\<rparr>)))))))"

section \<open>Tagged pointers\<close>

definition getTag :: "u64 \<Rightarrow> u64" where
  "getTag ptr = drop_bit 48 ptr"

definition unTag :: "u64 \<Rightarrow> u64" where
  "unTag ptr = (ptr AND (push_bit 48 1 - 1)) OR push_bit 48 0xffff"

section \<open>The Mach-O services\<close>

text \<open>The Mach-O file is used through its services only. \<open>Section\<close> is
  \<^verbatim>\<open>m.Section(segment, name)\<close>, with the section's \<^verbatim>\<open>Data()\<close> and \<^verbatim>\<open>Size\<close>;
  \<open>ReadAt m n off\<close> is \<^verbatim>\<open>m.ReadAt(buf, off)\<close> for a buffer of \<open>n\<close> bytes and gives
  the bytes it copied; \<open>findCStringVMaddr\<close>, \<open>getKextStartVMAddrs\<close> and
  \<open>getKextInfos\<close> are functions of the package that sandbox.go calls on the file. The
  constant \<open>tagPtrMask\<close> of the package is a parameter of the functions below.\<close>

record Section =
  secData :: "error + byte list"
  secSize :: u64

record MachO =
  Section :: "string \<Rightarrow> string \<Rightarrow> Section option"
  GetCString :: "u64 \<Rightarrow> error + string"
  GetOffset :: "u64 \<Rightarrow> error + u64"
  ReadAt :: "nat \<Rightarrow> u64 \<Rightarrow> error + byte list"
  findCStringVMaddr :: "string \<Rightarrow> error + u64"
  getKextStartVMAddrs :: "error + u64 list"
  getKextInfos :: "error + string list"

section \<open>GetSandboxOpts\<close>

fun u64s_of :: "byte list \<Rightarrow> u64 list" where
  "u64s_of (a # b # c # d # e # f # g # h # rest) =
     le_word [a, b, c, d, e, f, g, h] # u64s_of rest"
| "u64s_of _ = []"

text \<open>The loop of lines 67 to 90 over the pointers that are left, with the flag
  \<open>found\<close> and the list \<open>bcOpts\<close>: \<^verbatim>\<open>continue\<close> goes on with the rest, \<^verbatim>\<open>break\<close>
  returns the list.\<close>

fun opts_loop ::
  "(u64 \<Rightarrow> error + string) \<Rightarrow> u64 \<Rightarrow> u64 list \<Rightarrow> bool \<Rightarrow> string list \<Rightarrow> string list" where
  "opts_loop gcs tagPtrMask [] found bcOpts = bcOpts"
| "opts_loop gcs tagPtrMask (ptr # ptrs) found bcOpts =
     (if ptr = 0 then opts_loop gcs tagPtrMask ptrs found bcOpts
      else (case gcs (ptr OR tagPtrMask) of
              Inl err \<Rightarrow>
                (if found then bcOpts else opts_loop gcs tagPtrMask ptrs found bcOpts)
            | Inr str \<Rightarrow>
                (let found' = (if str = ''default'' then True else found)
                 in if found'
                    then (if getTag ptr \<noteq> 0x17 then bcOpts @ [str]
                          else opts_loop gcs tagPtrMask ptrs found' (bcOpts @ [str]))
                    else opts_loop gcs tagPtrMask ptrs found' bcOpts)))"

definition GetSandboxOpts :: "u64 \<Rightarrow> MachO \<Rightarrow> error + string list" where
  "GetSandboxOpts tagPtrMask m =
     (case Section m ''__DATA_CONST'' ''__const'' of
        None \<Rightarrow> Inr []
      | Some dconst \<Rightarrow>
          (case secData dconst of
             Inl err \<Rightarrow> Inl err
           | Inr data \<Rightarrow>
               (case readFull data 0 (8 * unat (secSize dconst div 8)) of
                  Inl e \<Rightarrow> Inl (Bare e)
                | Inr (bs, _) \<Rightarrow>
                    Inr (opts_loop (GetCString m) tagPtrMask (u64s_of bs) False []))))"

text \<open>The extractor as the specification words it: zero pointers and everything before
  the first pointer that reads as \<open>default\<close> are passed over; from there on each string
  read is collected, up to and including the first whose pointer's tag is not 0x17, and
  up to but excluding the first pointer whose string cannot be read.\<close>

fun spec_collect :: "(u64 \<Rightarrow> error + string) \<Rightarrow> u64 \<Rightarrow> u64 list \<Rightarrow> string list" where
  "spec_collect gcs tagPtrMask [] = []"
| "spec_collect gcs tagPtrMask (ptr # ptrs) =
     (if ptr = 0 then spec_collect gcs tagPtrMask ptrs
      else (case gcs (ptr OR tagPtrMask) of
              Inl err \<Rightarrow> []
            | Inr str \<Rightarrow>
                (if getTag ptr \<noteq> 0x17 then [str]
                 else str # spec_collect gcs tagPtrMask ptrs)))"

definition spec_before_default :: "(u64 \<Rightarrow> error + string) \<Rightarrow> u64 \<Rightarrow> u64 \<Rightarrow> bool" where
  "spec_before_default gcs tagPtrMask ptr =
     (ptr = 0 \<or> gcs (ptr OR tagPtrMask) \<noteq> Inr ''default'')"

definition spec_opts :: "(u64 \<Rightarrow> error + string) \<Rightarrow> u64 \<Rightarrow> u64 list \<Rightarrow> string list" where
  "spec_opts gcs tagPtrMask ptrs =
     spec_collect gcs tagPtrMask (dropWhile (spec_before_default gcs tagPtrMask) ptrs)"

section \<open>The disassembler\<close>

text \<open>The instruction that \<^verbatim>\<open>disassemble.Decompose\<close> gives, with the fields and the
  enumeration values that sandbox.go looks at. A slice without elements is nil. The
  disassembler itself is a parameter \<open>Decompose\<close> of the functions below.\<close>

datatype Operation =
  ARM64_ADD | ARM64_ADR | ARM64_ADRP | ARM64_LDR | ARM64_MOV | ARM64_MOVK | ARM64_OTHER nat

datatype Encoding =
  ENC_BL_ONLY_BRANCH_IMM | ENC_B_ONLY_BRANCH_IMM | ENC_CBZ_64_COMPBRANCH | ENC_OTHER nat

datatype OperandClass = REG | IMM32 | IMM64 | CLASS_OTHER nat

datatype ShiftType = SHIFT_TYPE_LSL | SHIFT_TYPE_OTHER nat

record Operand =
  Class :: OperandClass
  Registers :: "nat list"
  Immediate :: u64
  ShiftType :: ShiftType
  ShiftValue :: u32

record Instruction =
  Address :: u64
  Operation :: Operation
  Encoding :: Encoding
  Operands :: "Operand list"

section \<open>getSandboxData\<close>

definition and_then :: "error + 'a \<Rightarrow> ('a \<Rightarrow> error + 'b) \<Rightarrow> error + 'b" where
  "and_then r f = (case r of Inl e \<Rightarrow> Inl e | Inr x \<Rightarrow> f x)"

text \<open>An index expression \<^verbatim>\<open>xs[i]\<close> panics past the end of the slice.\<close>

definition index :: "'a list \<Rightarrow> nat \<Rightarrow> error + 'a" where
  "index xs i = (if i < length xs then Inr (xs ! i) else Inl IndexOutOfRange)"

text \<open>\<^verbatim>\<open>ins.Operands[i].Registers[0]\<close> and \<^verbatim>\<open>ins.Operands[i].Immediate\<close>.\<close>

definition reg_of :: "Instruction \<Rightarrow> nat \<Rightarrow> error + nat" where
  "reg_of ins i = and_then (index (Operands ins) i) (\<lambda>operand. index (Registers operand) 0)"

definition imm_of :: "Instruction \<Rightarrow> nat \<Rightarrow> error + u64" where
  "imm_of ins i = and_then (index (Operands ins) i) (\<lambda>operand. Inr (Immediate operand))"

text \<open>The address of an ADRP pair (lines 184 to 190 and again 242 to 248).\<close>

definition adrp_pair :: "Instruction \<Rightarrow> Instruction \<Rightarrow> error + u64" where
  "adrp_pair prev ins =
     and_then (reg_of prev 0) (\<lambda>adrpRegister.
     and_then (imm_of prev 1) (\<lambda>adrpImm.
       if Operation ins = ARM64_LDR then
         and_then (reg_of ins 1) (\<lambda>r.
           if adrpRegister = r then and_then (imm_of ins 1) (\<lambda>i. Inr (adrpImm + i))
           else Inr adrpImm)
       else if Operation ins = ARM64_ADD then
         and_then (reg_of ins 1) (\<lambda>r.
           if adrpRegister = r then and_then (imm_of ins 2) (\<lambda>i. Inr (adrpImm + i))
           else Inr adrpImm)
       else Inr adrpImm))"

definition is_adrp_pair :: "Instruction option \<Rightarrow> Instruction \<Rightarrow> bool" where
  "is_adrp_pair prevInstr ins =
     (case prevInstr of
        None \<Rightarrow> False
      | Some prev \<Rightarrow>
          Operation prev = ARM64_ADRP \<and>
          (Operation ins = ARM64_ADD \<or> Operation ins = ARM64_LDR))"

text \<open>The map \<open>references\<close> is a list of keys and values without double keys; the
  order in which a \<^verbatim>\<open>range\<close> loop visits it is a parameter of \<open>find_ref\<close>.\<close>

definition set_ref :: "u64 \<Rightarrow> u64 \<Rightarrow> (u64 \<times> u64) list \<Rightarrow> (u64 \<times> u64) list" where
  "set_ref k v references = (k, v) # filter (\<lambda>kv. fst kv \<noteq> k) references"

text \<open>Lines 176 to 192: what one decoded instruction adds to \<open>references\<close>.\<close>

definition record_ref ::
  "Instruction option \<Rightarrow> Instruction \<Rightarrow> (u64 \<times> u64) list \<Rightarrow> error + (u64 \<times> u64) list" where
  "record_ref prevInstr ins references =
     (if Encoding ins = ENC_BL_ONLY_BRANCH_IMM \<or> Encoding ins = ENC_B_ONLY_BRANCH_IMM then
        and_then (imm_of ins 0) (\<lambda>i. Inr (set_ref (Address ins) i references))
      else if Encoding ins = ENC_CBZ_64_COMPBRANCH then
        and_then (imm_of ins 1) (\<lambda>i. Inr (set_ref (Address ins) i references))
      else if Operation ins = ARM64_ADR \<or> Operation ins = ARM64_LDR then
        and_then (imm_of ins 1) (\<lambda>i. Inr (set_ref (Address ins) i references))
      else if is_adrp_pair prevInstr ins then
        (case prevInstr of
           None \<Rightarrow> Inr references
         | Some prev \<Rightarrow>
             and_then (adrp_pair prev ins) (\<lambda>a. Inr (set_ref (Address ins) a references)))
      else Inr references)"

text \<open>The loop of lines 164 to 198 over the bytes that the reader \<open>dr\<close> has left. With
  four bytes or more a word is read; with one to three bytes \<^verbatim>\<open>binary.Read\<close> fails
  with ErrUnexpectedEOF, which is not EOF, so the old \<open>instrValue\<close> is decoded once
  more and the next round ends the loop. When decoding fails, neither \<open>prevInstr\<close> nor
  \<open>startAddr\<close> changes.\<close>

fun scan_refs ::
  "(u64 \<Rightarrow> u32 \<Rightarrow> error + Instruction) \<Rightarrow> byte list \<Rightarrow> u32 \<Rightarrow> Instruction option \<Rightarrow> u64
     \<Rightarrow> (u64 \<times> u64) list \<Rightarrow> error + ((u64 \<times> u64) list \<times> Instruction option \<times> u32)" where
  "scan_refs Decompose [] instrValue prevInstr startAddr references =
     Inr (references, prevInstr, instrValue)"
| "scan_refs Decompose (b0 # b1 # b2 # b3 # rest) instrValue prevInstr startAddr references =
     (case Decompose startAddr (le_word [b0, b1, b2, b3]) of
        Inl err \<Rightarrow>
          scan_refs Decompose rest (le_word [b0, b1, b2, b3]) prevInstr startAddr references
      | Inr instruction \<Rightarrow>
          (case record_ref prevInstr instruction references of
             Inl e \<Rightarrow> Inl e
           | Inr references' \<Rightarrow>
               scan_refs Decompose rest (le_word [b0, b1, b2, b3]) (Some instruction)
                 (startAddr + 4) references'))"
| "scan_refs Decompose short instrValue prevInstr startAddr references =
     (case Decompose startAddr instrValue of
        Inl err \<Rightarrow> Inr (references, prevInstr, instrValue)
      | Inr instruction \<Rightarrow>
          (case record_ref prevInstr instruction references of
             Inl e \<Rightarrow> Inl e
           | Inr references' \<Rightarrow> Inr (references', Some instruction, instrValue)))"

text \<open>The loops of lines 201 to 207 and 210 to 216: the first key, in the order of the
  \<^verbatim>\<open>range\<close> loop, whose value is the target.\<close>

definition find_ref ::
  "((u64 \<times> u64) list \<Rightarrow> (u64 \<times> u64) list) \<Rightarrow> (u64 \<times> u64) list \<Rightarrow> u64 \<Rightarrow> u64 option" where
  "find_ref range_order references target =
     map_option fst (find (\<lambda>kv. snd kv = target) (range_order references))"

definition in_window :: "u64 \<Rightarrow> Instruction \<Rightarrow> bool" where
  "in_window failXrefVMAddr ins =
     (failXrefVMAddr - 0x20 < Address ins \<and> Address ins < failXrefVMAddr)"

text \<open>Lines 252 to 256: the last operand of class IMM64 gives the size.\<close>

definition mov_size :: "Operand list \<Rightarrow> u64 \<Rightarrow> u64" where
  "mov_size operands size0 =
     fold (\<lambda>operand sz. if Class operand = IMM64 then Immediate operand else sz)
       operands size0"

text \<open>Lines 258 to 268, for a MOVK instruction \<open>ins\<close> after \<open>prev\<close>.\<close>

definition movk_size :: "Instruction \<Rightarrow> Instruction \<Rightarrow> u64 \<Rightarrow> error + u64" where
  "movk_size prev ins size0 =
     (if Operands ins \<noteq> [] \<and> Operands prev \<noteq> [] then
        and_then (reg_of prev 0) (\<lambda>movRegister.
        and_then (imm_of prev 1) (\<lambda>movImm.
        and_then (reg_of ins 0) (\<lambda>r.
          if movRegister = r then
            and_then (index (Operands ins) 1) (\<lambda>operand.
              if Class operand = IMM32 \<and> ShiftType operand = SHIFT_TYPE_LSL then
                Inr (movImm + push_bit (unat (ShiftValue operand)) (Immediate operand))
              else Inr size0)
          else Inr size0)))
      else Inr size0)"

text \<open>Lines 239 to 269: what one decoded instruction does to \<open>profileVMAddr\<close> and
  \<open>profileSize\<close>. \<^verbatim>\<open>prevInstr.Operation\<close> on a nil \<open>prevInstr\<close> panics.\<close>

definition locate_step ::
  "u64 \<Rightarrow> Instruction option \<Rightarrow> Instruction \<Rightarrow> u64 \<times> u64 \<Rightarrow> error + (u64 \<times> u64)" where
  "locate_step failXrefVMAddr prevInstr ins st =
     (if in_window failXrefVMAddr ins then
        (if is_adrp_pair prevInstr ins then
           (case prevInstr of
              None \<Rightarrow> Inr st
            | Some prev \<Rightarrow> and_then (adrp_pair prev ins) (\<lambda>a. Inr (a, snd st)))
         else if Operation ins = ARM64_MOV then
           Inr (fst st, mov_size (Operands ins) (snd st))
         else if Operation ins = ARM64_MOVK then
           (case prevInstr of
              None \<Rightarrow> Inl NilDereference
            | Some prev \<Rightarrow>
                if Operation prev = ARM64_MOV
                then and_then (movk_size prev ins (snd st)) (\<lambda>sz. Inr (fst st, sz))
                else Inr st)
         else Inr st)
      else Inr st)"

text \<open>The loop of lines 224 to 273, read like the first one.\<close>

fun locate_loop ::
  "(u64 \<Rightarrow> u32 \<Rightarrow> error + Instruction) \<Rightarrow> u64 \<Rightarrow> byte list \<Rightarrow> u32 \<Rightarrow> Instruction option \<Rightarrow> u64
     \<Rightarrow> u64 \<times> u64 \<Rightarrow> error + (u64 \<times> u64)" where
  "locate_loop Decompose failXref [] instrValue prevInstr startAddr st = Inr st"
| "locate_loop Decompose failXref (b0 # b1 # b2 # b3 # rest) instrValue prevInstr startAddr st =
     (case Decompose startAddr (le_word [b0, b1, b2, b3]) of
        Inl err \<Rightarrow>
          locate_loop Decompose failXref rest (le_word [b0, b1, b2, b3]) prevInstr startAddr st
      | Inr instruction \<Rightarrow>
          (case locate_step failXref prevInstr instruction st of
             Inl e \<Rightarrow> Inl e
           | Inr st' \<Rightarrow>
               locate_loop Decompose failXref rest (le_word [b0, b1, b2, b3])
                 (Some instruction) (startAddr + 4) st'))"
| "locate_loop Decompose failXref short instrValue prevInstr startAddr st =
     (case Decompose startAddr instrValue of
        Inl err \<Rightarrow> Inr st
      | Inr instruction \<Rightarrow> locate_step failXref prevInstr instruction st)"

text \<open>\<^verbatim>\<open>strings.Contains\<close>.\<close>

fun has_prefix :: "string \<Rightarrow> string \<Rightarrow> bool" where
  "has_prefix [] s = True"
| "has_prefix (x # xs) [] = False"
| "has_prefix (x # xs) (y # ys) = (x = y \<and> has_prefix xs ys)"

fun Contains :: "string \<Rightarrow> string \<Rightarrow> bool" where
  "Contains [] substr = (substr = [])"
| "Contains (c # cs) substr = (has_prefix substr (c # cs) \<or> Contains cs substr)"

text \<open>The loop of lines 128 to 138: the first kext whose name contains \<open>sandbox\<close>
  gives the start and end addresses and the start offset; they stay 0 when there is
  none.\<close>

fun find_sandbox_kext ::
  "u64 \<Rightarrow> MachO \<Rightarrow> u64 list \<Rightarrow> string list \<Rightarrow> nat \<Rightarrow> error + (u64 \<times> u64 \<times> u64)" where
  "find_sandbox_kext tagPtrMask m startAdders [] idx = Inr (0, 0, 0)"
| "find_sandbox_kext tagPtrMask m startAdders (info # infos) idx =
     (if Contains info ''sandbox'' then
        and_then (index startAdders idx) (\<lambda>s.
        and_then (index startAdders (idx + 1)) (\<lambda>e.
        and_then (GetOffset m (s OR tagPtrMask)) (\<lambda>off.
          Inr (s OR tagPtrMask, e OR tagPtrMask, off))))
      else find_sandbox_kext tagPtrMask m startAdders infos (Suc idx))"

text \<open>A buffer of \<open>n\<close> zero bytes filled by \<^verbatim>\<open>m.ReadAt\<close>.\<close>

definition read_buf :: "MachO \<Rightarrow> nat \<Rightarrow> u64 \<Rightarrow> error + byte list" where
  "read_buf m n off =
     and_then (ReadAt m n off) (\<lambda>bs. Inr (take n bs @ replicate (n - length bs) 0))"

text \<open>The whole locator. \<open>order1\<close> and \<open>order2\<close> are the orders of the two \<^verbatim>\<open>range\<close>
  loops over the map.\<close>

definition getSandboxData ::
  "(u64 \<Rightarrow> u32 \<Rightarrow> error + Instruction) \<Rightarrow> u64
     \<Rightarrow> ((u64 \<times> u64) list \<Rightarrow> (u64 \<times> u64) list) \<Rightarrow> ((u64 \<times> u64) list \<Rightarrow> (u64 \<times> u64) list)
     \<Rightarrow> MachO \<Rightarrow> string \<Rightarrow> error + byte list" where
  "getSandboxData Decompose tagPtrMask order1 order2 m panic =
     and_then (findCStringVMaddr m panic) (\<lambda>panicStrVMAddr.
     and_then (GetOffset m panicStrVMAddr) (\<lambda>panicStrOffset.
     and_then (getKextStartVMAddrs m) (\<lambda>startAdders.
     and_then (getKextInfos m) (\<lambda>infos.
     and_then (find_sandbox_kext tagPtrMask m startAdders infos 0)
       (\<lambda>(sandboxKextStartVaddr, sandboxKextEndVaddr, sandboxKextStartOffset).
     and_then (read_buf m (unat (sandboxKextEndVaddr - sandboxKextStartVaddr))
                 sandboxKextStartOffset) (\<lambda>sbInstrData.
     and_then (scan_refs Decompose sbInstrData 0 None sandboxKextStartVaddr [])
       (\<lambda>(references, prevInstr, instrValue).
     (let panicXrefVMAddr =
            (case find_ref order1 references panicStrVMAddr of
               None \<Rightarrow> 0 | Some k \<Rightarrow> k - 4);
          failXrefVMAddr =
            (case find_ref order2 references panicXrefVMAddr of
               None \<Rightarrow> 0 | Some k \<Rightarrow> k)
      in and_then (locate_loop Decompose failXrefVMAddr sbInstrData instrValue prevInstr
                     sandboxKextStartVaddr (0, 0)) (\<lambda>(profileVMAddr, size0).
         and_then (GetOffset m profileVMAddr) (\<lambda>profileOffset.
           read_buf m (unat size0) profileOffset))))))))))"

definition GetSandboxProfiles ::
  "(u64 \<Rightarrow> u32 \<Rightarrow> error + Instruction) \<Rightarrow> u64
     \<Rightarrow> ((u64 \<times> u64) list \<Rightarrow> (u64 \<times> u64) list) \<Rightarrow> ((u64 \<times> u64) list \<Rightarrow> (u64 \<times> u64) list)
     \<Rightarrow> MachO \<Rightarrow> error + byte list" where
  "GetSandboxProfiles Decompose tagPtrMask order1 order2 m =
     getSandboxData Decompose tagPtrMask order1 order2 m
       ''\"failed to initialize platform sandbox\"''"


section \<open>What the specification names\<close>

text \<open>The positional op-node array as the specification words it: entry \<open>i\<close> is the
  u64 read through the \<open>i\<close>-th entry of the op-node offset table.\<close>

definition spec_positional_opNodes :: "byte list \<Rightarrow> SandboxProfileCollection \<Rightarrow> u64 list" where
  "spec_positional_opNodes data c =
     (case read_u16s data (unat (opNodeStart c)) (unat (opNodeCount c)) of
        Inl e \<Rightarrow> []
      | Inr (opNodeOffsets, _) \<Rightarrow>
          map (\<lambda>opoff. case read_u64 data (unat opoff) of Inl e \<Rightarrow> 0 | Inr (v, _) \<Rightarrow> v)
            opNodeOffsets)"

text \<open>The length-prefixed byte string stored at a position of the blob: the u16 length
  and the bytes behind it, as many as the length says and the blob holds.\<close>

definition stored_item :: "byte list \<Rightarrow> nat \<Rightarrow> byte list" where
  "stored_item data pos =
     take (unat (le_word (take 2 (drop pos data)) :: u16)) (drop (pos + 2) data)"


section \<open>Concrete blobs\<close>

text \<open>One profile named \<open>A\<close> with one operation of index 0, and one op-node slot at
  offset 24 whose value is 24.\<close>

definition blob_one_profile :: "byte list" where
  "blob_one_profile =
     [1, 0,  1, 0,  1,  0,  1, 0,  0, 0,  0, 0,
      0, 0,  7, 0,  0, 0,
      0, 0, 0, 0, 0, 0,
      24, 0, 0, 0, 0, 0, 0, 0,
      1, 0,  65]"

text \<open>The header of the first scenario of the specification.\<close>

definition header_scenario_1 :: "byte list" where
  "header_scenario_1 = [1, 0,  4, 0,  2,  1,  1, 0,  1, 0,  0, 0,  0, 0, 0, 0]"

text \<open>A header with one regex offset, 0x1234, right behind it.\<close>

definition blob_regex_table :: "byte list" where
  "blob_regex_table =
     [0, 0,  0, 0,  0,  0,  0, 0,  1, 0,  0, 0,  0x34, 0x12,  0xFF, 0xFF,  0x78, 0x56]"

text \<open>A header with \<open>op_count = 254\<close> and one profile.\<close>

definition header_254 :: "byte list" where
  "header_254 = [1, 0,  0, 0,  254,  0,  1, 0,  0, 0,  0, 0]"

text \<open>One regex at offset 0 whose length field says 4 bytes; one byte follows.\<close>

definition blob_short_regex :: "byte list" where
  "blob_short_regex =
     [1, 0,  0, 0,  0,  0,  0, 0,  1, 0,  0, 0,  0, 0,  0, 0,  4, 0,  0xAA]"


section \<open>A concrete opcode array\<close>

text \<open>The pointer mask, a C-string service that knows four strings, and a pointer array:
  a zero pointer, a pointer with no string, a pointer to \<open>unrelated\<close>, then
  \<open>default\<close>, \<open>file*\<close> and \<open>mach*\<close> with the tags 0x17, 0x17 and 0x10, a zero pointer
  and \<open>unrelated\<close> again.\<close>

definition mask_example :: u64 where
  "mask_example = 0xffff000000000000"

definition cstrings_example :: "u64 \<Rightarrow> error + string" where
  "cstrings_example addr =
     (if addr = 0xFFFFFFFFFFF00000 then Inr ''default''
      else if addr = 0xFFFFFFFFFFF00010 then Inr ''file*''
      else if addr = 0xFFFFFFFFFFF00020 then Inr ''mach*''
      else if addr = 0xFFFFFFFFFFF00030 then Inr ''unrelated''
      else Inl (External ''no string''))"

definition ptrs_example :: "u64 list" where
  "ptrs_example =
     [0, 0x0017FFFFFFF00040, 0x0017FFFFFFF00030,
      0x0017FFFFFFF00000, 0x0017FFFFFFF00010, 0x0010FFFFFFF00020, 0, 0x0017FFFFFFF00030]"

text \<open>The section bytes of the array \<open>default\<close>, \<open>file*\<close>, \<open>mach*\<close>, 0, \<open>unrelated\<close>,
  and a Mach-O file that has them as its \<^verbatim>\<open>__DATA_CONST,__const\<close> section.\<close>

definition const_example :: "byte list" where
  "const_example =
     [0x00, 0x00, 0xF0, 0xFF, 0xFF, 0xFF, 0x17, 0x00,
      0x10, 0x00, 0xF0, 0xFF, 0xFF, 0xFF, 0x17, 0x00,
      0x20, 0x00, 0xF0, 0xFF, 0xFF, 0xFF, 0x10, 0x00,
      0, 0, 0, 0, 0, 0, 0, 0,
      0x30, 0x00, 0xF0, 0xFF, 0xFF, 0xFF, 0x17, 0x00]"

definition macho_example :: MachO where
  "macho_example =
     \<lparr>Section = (\<lambda>seg name. if seg = ''__DATA_CONST'' \<and> name = ''__const''
                    then Some \<lparr>secData = Inr const_example, secSize = 40\<rparr> else None),
      GetCString = cstrings_example,
      GetOffset = (\<lambda>addr. Inr (addr AND 0xFFFFF)),
      ReadAt = (\<lambda>n off. Inr (replicate n 0)),
      findCStringVMaddr = (\<lambda>s. Inr 0xFFFFFFFFFFF01000),
      getKextStartVMAddrs = Inr [],
      getKextInfos = Inr []\<rparr>"

definition macho_no_const :: MachO where
  "macho_no_const = macho_example\<lparr>Section := \<lambda>seg name. None\<rparr>"

section \<open>Concrete instructions and a concrete image\<close>

text \<open>A register operand, an immediate operand, and the operand \<open>#v, LSL #s\<close>; the
  instructions \<open>MOV Xrd, #imm\<close> and \<open>MOVK Xrd, #imm, LSL #s\<close>.\<close>

definition reg_operand :: "nat \<Rightarrow> Operand" where
  "reg_operand r =
     \<lparr>Class = REG, Registers = [r], Immediate = 0, ShiftType = SHIFT_TYPE_OTHER 0,
      ShiftValue = 0\<rparr>"

definition imm_operand :: "OperandClass \<Rightarrow> u64 \<Rightarrow> Operand" where
  "imm_operand cls v =
     \<lparr>Class = cls, Registers = [], Immediate = v, ShiftType = SHIFT_TYPE_OTHER 0,
      ShiftValue = 0\<rparr>"

definition lsl_operand :: "u64 \<Rightarrow> u32 \<Rightarrow> Operand" where
  "lsl_operand v s =
     \<lparr>Class = IMM32, Registers = [], Immediate = v, ShiftType = SHIFT_TYPE_LSL,
      ShiftValue = s\<rparr>"

definition mov_insn :: "u64 \<Rightarrow> nat \<Rightarrow> u64 \<Rightarrow> Instruction" where
  "mov_insn addr rd imm =
     \<lparr>Address = addr, Operation = ARM64_MOV, Encoding = ENC_OTHER 0,
      Operands = [reg_operand rd, imm_operand IMM64 imm]\<rparr>"

definition movk_insn :: "u64 \<Rightarrow> nat \<Rightarrow> u64 \<Rightarrow> u32 \<Rightarrow> Instruction" where
  "movk_insn addr rd imm s =
     \<lparr>Address = addr, Operation = ARM64_MOVK, Encoding = ENC_OTHER 0,
      Operands = [reg_operand rd, lsl_operand imm s]\<rparr>"





section \<open>Run-time panics\<close>



section \<open>The op-node alignment\<close>

lemma unat_small: "unat (w :: u32) = n \<Longrightarrow> w = word_of_nat n"
  by auto

lemma and7_cases:
  "(x :: u32) AND 7 = 0 \<or> x AND 7 = 1 \<or> x AND 7 = 2 \<or> x AND 7 = 3 \<or> x AND 7 = 4
     \<or> x AND 7 = 5 \<or> x AND 7 = 6 \<or> x AND 7 = 7"
proof -
  have "x AND 7 \<le> 7" by (rule word_and_le1)
  then have "unat (x AND 7) \<le> 7" by (simp add: word_le_nat_alt)
  then have "unat (x AND 7) = 0 \<or> unat (x AND 7) = 1 \<or> unat (x AND 7) = 2
      \<or> unat (x AND 7) = 3 \<or> unat (x AND 7) = 4 \<or> unat (x AND 7) = 5
      \<or> unat (x AND 7) = 6 \<or> unat (x AND 7) = 7"
    by arith
  then show ?thesis
    by (elim disjE) (drule unat_small, simp)+
qed

lemma unat_add_mod8: "unat (x + y :: u32) mod 8 = (unat x + unat y) mod 8"
proof -
  have "unat (x + y) = (unat x + unat y) mod 2 ^ 32" by (simp add: unat_word_ariths)
  moreover have "(8::nat) dvd 2 ^ 32" by simp
  ultimately show ?thesis by (simp add: mod_mod_cancel)
qed

lemma unat_mod8_and: "unat (x :: u32) mod 8 = unat (x AND 7)"
proof -
  have "x AND 7 = take_bit 3 x" by (simp add: take_bit_eq_mask mask_eq_exp_minus_1)
  then show ?thesis by (simp add: unsigned_take_bit_eq take_bit_eq_mod unat_mod)
qed

lemma even_and7: "even (x :: u32) \<longleftrightarrow> even (x AND 7)"
  by (simp add: even_and_iff)

lemma delta_and7: "opNodeStartDelta x = opNodeStartDelta (x AND 7)"
  by (simp add: opNodeStartDelta_def and.assoc)

lemma align_unat_mod8:
  "unat (align x) mod 8 = (unat (opNodeStartDelta (x AND 7)) + unat (x AND 7)) mod 8"
proof -
  have "unat (align x) mod 8 = (unat (opNodeStartDelta x) + unat x mod 8) mod 8"
    unfolding align_def unat_add_mod8 by (simp add: mod_add_right_eq)
  then show ?thesis using delta_and7 [of x] by (simp only: unat_mod8_and)
qed

lemma align_mod8: "unat (align x) mod 8 = (if even x then 0 else 1)"
proof -
  have "unat (opNodeStartDelta (x AND 7)) + unat (x AND 7) \<in> {0, 1, 8, 9} \<and>
        (even (x AND 7) \<longleftrightarrow> unat (opNodeStartDelta (x AND 7)) + unat (x AND 7) \<in> {0, 8})"
    using and7_cases [of x]
    by (elim disjE) (simp_all only: opNodeStartDelta_def, simp_all)
  then show ?thesis
    unfolding align_unat_mod8 even_and7 [of x] by auto
qed



text \<open>Every position that the parser aligns is even, so the op-node table starts at a
  multiple of 8.\<close>

lemma even_opNodeStartTmp: "even (opNodeStartTmp c)"
  by (simp add: opNodeStartTmp_def globalVarEnd_def globalVarStart_def profileSize_def)

lemma opNodeStart_aligned: "unat (opNodeStart c) mod 8 = 0"
  using even_opNodeStartTmp [of c] by (simp add: opNodeStart_def align_mod8)




section \<open>The header and the tables\<close>

lemma read_collection_Inr:
  "read_collection data 0 = Inr (c, p) \<Longrightarrow>
     12 \<le> length data \<and> p = 12 \<and> c = decode_collection (take 12 data)"
  by (auto simp: read_collection_def collection_size_def readFull_def split: if_splits)

lemma read_collection_short:
  "length data < 12 \<Longrightarrow> \<exists>e. read_collection data 0 = Inl e"
  by (auto simp: read_collection_def collection_size_def readFull_def split: if_splits)

lemma read_u16s_Inr:
  "read_u16s data pos n = Inr (xs, p) \<Longrightarrow> xs = u16s_of (take (2 * n) (drop pos data))"
  by (auto simp: read_u16s_def readFull_def split: if_splits)

lemma read_tables_blob_regex_table:
  "read_tables blob_regex_table =
     Inr (\<lparr>Version = 0, OpNodeSize = 0, OpCount = 0, GlobalVarCount = 0, ProfileCount = 0,
           RegexItemCount = 1, MsgItemCount = 0\<rparr>, [0x1234], [], [], 14)"
  by code_simp

text \<open>C3, as the code has it: the header is 12 bytes. A blob shorter than 12 bytes is
  refused at the header, and when the tables are read the header is the first 12 bytes
  and the regex offset table is what follows from blob offset 12.\<close>

theorem header_is_12_bytes:
  "(length data < 12 \<longrightarrow> (\<exists>e. ParseSandboxCollection data opsList = Inl (ErrCollection e))) \<and>
   (read_tables data = Inr (c, regexOffsets, globalOffsets, msgOffsets, p) \<longrightarrow>
      12 \<le> length data \<and> c = decode_collection (take 12 data) \<and>
      regexOffsets = u16s_of (take (2 * unat (RegexItemCount c)) (drop 12 data)))"
proof (intro conjI impI)
  assume "length data < 12"
  then obtain e where "read_collection data 0 = Inl e"
    using read_collection_short by blast
  then show "\<exists>e. ParseSandboxCollection data opsList = Inl (ErrCollection e)"
    by (simp add: ParseSandboxCollection_def read_tables_def)
next
  assume a: "read_tables data = Inr (c, regexOffsets, globalOffsets, msgOffsets, p)"
  then obtain p1 where c: "read_collection data 0 = Inr (c, p1)"
    by (auto simp: read_tables_def split: sum.splits)
  with a obtain p2 where
    r: "read_u16s data p1 (unat (RegexItemCount c)) = Inr (regexOffsets, p2)"
    by (auto simp: read_tables_def split: sum.splits)
  from c have p1: "12 \<le> length data" "p1 = 12" "c = decode_collection (take 12 data)"
    using read_collection_Inr by blast+
  from p1 show "12 \<le> length data" by simp
  from p1 show "c = decode_collection (take 12 data)" by simp
  from r p1 show "regexOffsets = u16s_of (take (2 * unat (RegexItemCount c)) (drop 12 data))"
    using read_u16s_Inr by blast
qed

theorem header_is_12_bytes_witness:
  "length ([] :: byte list) < 12 \<and> ParseSandboxCollection [] [] = Inl (ErrCollection EOF) \<and>
   read_tables blob_regex_table =
     Inr (\<lparr>Version = 0, OpNodeSize = 0, OpCount = 0, GlobalVarCount = 0, ProfileCount = 0,
           RegexItemCount = 1, MsgItemCount = 0\<rparr>, [0x1234], [], [], 14) \<and>
   12 \<le> length blob_regex_table \<and>
   [0x1234] = u16s_of (take (2 * unat (1 :: u16)) (drop 12 blob_regex_table))"
proof -
  have e: "ParseSandboxCollection [] [] = Inl (ErrCollection EOF)"
    by code_simp
  show ?thesis
    using e header_is_12_bytes [where data = "[]" and opsList = "[]"]
      header_is_12_bytes [where data = blob_regex_table and opsList = "[]"
        and c = "\<lparr>Version = 0, OpNodeSize = 0, OpCount = 0, GlobalVarCount = 0,
           ProfileCount = 0, RegexItemCount = 1, MsgItemCount = 0\<rparr>"
        and regexOffsets = "[0x1234]" and globalOffsets = "[]" and msgOffsets = "[]"
        and p = 14]
    by (simp add: read_tables_blob_regex_table)
qed

text \<open>C3 as stated fails: in a blob whose bytes 12 and 13 are 0x34 0x12 and whose bytes
  16 and 17 are 0x78 0x56, the one regex offset read is 0x1234, and the reader stands at
  14 after the tables; a blob of 12 zero bytes is parsed without error.\<close>

theorem header_16_counterexample:
  "read_tables blob_regex_table =
     Inr (\<lparr>Version = 0, OpNodeSize = 0, OpCount = 0, GlobalVarCount = 0, ProfileCount = 0,
           RegexItemCount = 1, MsgItemCount = 0\<rparr>, [0x1234], [], [], 14) \<and>
   u16s_of (take 2 (drop 12 blob_regex_table)) = [0x1234] \<and>
   u16s_of (take 2 (drop 16 blob_regex_table)) = [0x5678] \<and>
   \<not> isl (ParseSandboxCollection (replicate 12 0) [])"
  by code_simp

section \<open>The profile record size\<close>

lemma unat_ucast_8_32: "unat (ucast (w :: byte) :: u32) = unat w"
proof -
  have "unat w < 2 ^ 8" using unsigned_less [of w] by simp
  then have "unat w < 2 ^ 32" by simp
  then show ?thesis by (simp add: unsigned_ucast_eq take_bit_nat_eq_self)
qed

lemma profileSize_small:
  "unat (OpCount c) \<le> 253 \<Longrightarrow> unat (profileSize c) = 2 * (unat (OpCount c) + 2)"
proof -
  assume a: "unat (OpCount c) \<le> 253"
  then have b: "unat (OpCount c + 2) = unat (OpCount c) + 2"
    by (simp add: unat_word_ariths)
  have "unat (profileSize c) = (unat (OpCount c + 2) * 2) mod 2 ^ 32"
    by (simp add: profileSize_def unat_word_ariths unat_ucast_8_32)
  with a b show ?thesis by simp
qed

text \<open>C4 at \<open>op_count = 254\<close>: the sum \<open>op_count + 2\<close> is taken in uint8 and wraps to 0,
  so the record size is 0 where the claim says 512; a blob with this header, one full
  record of 512 bytes and an empty name is refused at the first field of the record.\<close>

theorem profileSize_wraps:
  "unat (OpCount (decode_collection header_254)) = 254 \<and>
   unat (profileSize (decode_collection header_254)) = 0 \<and>
   ParseSandboxCollection (header_254 @ replicate 600 0) (replicate 254 ''x'')
     = Inl (ErrNameOffset 0 EOF)"
  by code_simp

section \<open>The positional op-node array\<close>

text \<open>The slice \<open>opNodes\<close> starts with \<open>opNodeCount\<close> zeros, and every operation gets the
  entry of that slice at its index: an operation whose index is inside the offset table
  gets the value 0.\<close>

lemma read_opNodes_appends:
  "read_opNodes data offs acc m = Inr (ns, m') \<Longrightarrow> \<exists>vs. ns = acc @ vs \<and> length vs = length offs"
proof (induction offs arbitrary: acc m)
  case Nil
  then show ?case by simp
next
  case (Cons opoff offs)
  from Cons.prems obtain v where
    "read_opNodes data offs (acc @ [v]) (m(opoff \<mapsto> v)) = Inr (ns, m')"
    by (auto split: sum.splits)
  from Cons.IH [OF this] show ?case by auto
qed

lemma load_opNodes_zeros:
  "load_opNodes data c = Inr (ns, m) \<Longrightarrow> \<exists>vs. ns = replicate (unat (opNodeCount c)) 0 @ vs"
  using read_opNodes_appends by (fastforce simp: load_opNodes_def split: sum.splits)

lemma set_values_value:
  "set_values ns os = Inr os' \<Longrightarrow>
     \<forall>o' \<in> set os'. opValue o' = ns ! unat (opIndex o')"
  by (induction os arbitrary: os') (auto split: if_splits sum.splits)

lemma set_profile_values_value:
  "set_profile_values ns ps = Inr ps' \<Longrightarrow>
     \<forall>p \<in> set ps'. \<forall>o' \<in> set (Operations p). opValue o' = ns ! unat (opIndex o')"
proof (induction ps arbitrary: ps')
  case Nil
  then show ?case by simp
next
  case (Cons p ps)
  from Cons.prems obtain os' rest where
    os: "set_values ns (Operations p) = Inr os'"
    and rest: "set_profile_values ns ps = Inr rest"
    and ps': "ps' = p\<lparr>Operations := os'\<rparr> # rest"
    by (auto split: sum.splits)
  from set_values_value [OF os] Cons.IH [OF rest] ps' show ?case by simp
qed

lemma values_inside_table_are_zero:
  assumes "ParseSandboxCollection data opsList = Inr sb"
    and "p \<in> set (Profiles sb)" and "o' \<in> set (Operations p)"
    and "unat (opIndex o') < unat (opNodeCount (decode_collection (take 12 data)))"
  shows "opValue o' = 0"
proof -
  from assms(1) obtain c regexOffsets globalOffsets msgOffsets p4 where
    t: "read_tables data = Inr (c, regexOffsets, globalOffsets, msgOffsets, p4)"
    by (auto simp: ParseSandboxCollection_def split: sum.splits)
  then obtain p1 where "read_collection data 0 = Inr (c, p1)"
    by (auto simp: read_tables_def split: sum.splits)
  then have c: "c = decode_collection (take 12 data)"
    using read_collection_Inr by blast
  from assms(1) t obtain profiles opNodes nodeMap where
    lo: "load_opNodes data c = Inr (opNodes, nodeMap)"
    and sv: "set_profile_values opNodes profiles = Inr (Profiles sb)"
    by (auto simp: ParseSandboxCollection_def split: sum.splits)
  from load_opNodes_zeros [OF lo] obtain vs where
    "opNodes = replicate (unat (opNodeCount c)) 0 @ vs" by blast
  with assms(4) c have "opNodes ! unat (opIndex o') = 0"
    by (simp add: nth_append)
  with set_profile_values_value [OF sv] assms(2,3) show ?thesis by simp
qed

text \<open>C1 at the blob with one profile: the parse succeeds, the operation has index 0, the
  value read through entry 0 of the op-node offset table is 24, and the operation's
  value is 0, taken from the zeros that the slice is made with.\<close>

theorem opNodes_leading_zeros:
  "\<not> isl (ParseSandboxCollection blob_one_profile [''default'']) \<and>
   map (\<lambda>p. map opIndex (Operations p))
     (Profiles (projr (ParseSandboxCollection blob_one_profile [''default'']))) = [[0]] \<and>
   map (\<lambda>p. map opValue (Operations p))
     (Profiles (projr (ParseSandboxCollection blob_one_profile [''default'']))) = [[0]] \<and>
   spec_positional_opNodes blob_one_profile (decode_collection (take 12 blob_one_profile))
     = [24]"
  by code_simp

section \<open>Short reads\<close>

text \<open>\<^verbatim>\<open>binary.Read\<close> fails when fewer bytes are left than it needs; \<^verbatim>\<open>r.Read\<close>
  fills a buffer of any length as soon as one byte is left.\<close>

lemma readFull_short:
  "0 < n \<Longrightarrow> length s < pos + n \<Longrightarrow> \<exists>e. readFull s pos n = Inl e"
  by (auto simp: readFull_def)

lemma reader_Read_short:
  "pos < length s \<Longrightarrow> \<exists>str p. reader_Read s pos n = Inr (str, p) \<and> length str = n"
  by (auto simp: reader_Read_def Let_def)

text \<open>C7 at a blob of 19 bytes whose regex has a length field of 4 at offset 16 and one
  byte of body: \<^verbatim>\<open>r.Read\<close> reports no error, and the regex is the one byte followed
  by three zeros.\<close>

theorem short_regex_body_accepted:
  "length blob_short_regex = 19 \<and>
   stored_item blob_short_regex 16 = [0xAA] \<and>
   \<not> isl (ParseSandboxCollection blob_short_regex []) \<and>
   Regexes (projr (ParseSandboxCollection blob_short_regex [])) 0 = Some [0xAA, 0, 0, 0]"
  by code_simp

section \<open>The opcode-name extractor\<close>

lemma opts_loop_found:
  "opts_loop gcs tmask ptrs True acc = acc @ spec_collect gcs tmask ptrs"
  by (induction ptrs arbitrary: acc) (auto split: sum.splits)

lemma opts_loop_refines:
  "opts_loop gcs tmask ptrs False [] = spec_opts gcs tmask ptrs"
  unfolding spec_opts_def
  by (induction ptrs) (auto simp: spec_before_default_def opts_loop_found split: sum.splits)

lemma spec_collect_default:
  "ptr \<noteq> 0 \<Longrightarrow> gcs (ptr OR tmask) = Inr ''default'' \<Longrightarrow>
     \<exists>rest. spec_collect gcs tmask (ptr # ptrs) = ''default'' # rest"
  by simp

lemma spec_opts_default:
  "spec_opts gcs tmask ptrs = [] \<or> (\<exists>rest. spec_opts gcs tmask ptrs = ''default'' # rest)"
proof (cases "dropWhile (spec_before_default gcs tmask) ptrs")
  case Nil
  show ?thesis unfolding spec_opts_def Nil by simp
next
  case (Cons ptr rest)
  then have "\<not> spec_before_default gcs tmask ptr"
    by (metis hd_dropWhile list.sel(1) list.distinct(1))
  then have "ptr \<noteq> 0" "gcs (ptr OR tmask) = Inr ''default''"
    by (auto simp: spec_before_default_def)
  then show ?thesis
    unfolding spec_opts_def Cons using spec_collect_default [of ptr gcs tmask rest] by blast
qed

text \<open>C5: on every pointer array the loop of GetSandboxOpts, started with \<open>found\<close> false
  and an empty list, gives what the specification describes: zero pointers are passed
  over everywhere, and so is every pointer before the first that reads as \<open>default\<close>,
  readable or not; from \<open>default\<close> on each string read is appended, the scan stops after
  appending the first string whose pointer's tag is not 0x17, and stops without appending
  at the first pointer whose string cannot be read.\<close>

theorem GetSandboxOpts_refines_spec:
  "opts_loop gcs tagPtrMask ptrs False [] = spec_opts gcs tagPtrMask ptrs"
  by (rule opts_loop_refines)

theorem GetSandboxOpts_refines_spec_witness:
  "opts_loop cstrings_example mask_example ptrs_example False []
     = [''default'', ''file*'', ''mach*'']"
proof -
  have "spec_opts cstrings_example mask_example ptrs_example
          = [''default'', ''file*'', ''mach*'']"
    by code_simp
  then show ?thesis
    using GetSandboxOpts_refines_spec [of cstrings_example mask_example ptrs_example]
    by simp
qed

text \<open>C10: when GetSandboxOpts returns a list, the list is empty or starts with
  \<open>default\<close>; without a \<^verbatim>\<open>__DATA_CONST,__const\<close> section it returns the empty list and
  no error.\<close>

theorem GetSandboxOpts_default_first:
  "(GetSandboxOpts tagPtrMask m = Inr opts \<longrightarrow>
      opts = [] \<or> (\<exists>rest. opts = ''default'' # rest)) \<and>
   (Section m ''__DATA_CONST'' ''__const'' = None \<longrightarrow> GetSandboxOpts tagPtrMask m = Inr [])"
  using spec_opts_default
  by (auto simp: GetSandboxOpts_def opts_loop_refines split: option.splits sum.splits)

theorem GetSandboxOpts_default_first_witness:
  "GetSandboxOpts mask_example macho_example = Inr [''default'', ''file*'', ''mach*''] \<and>
   [''default'', ''file*'', ''mach*''] = ''default'' # [''file*'', ''mach*''] \<and>
   Section macho_no_const ''__DATA_CONST'' ''__const'' = None \<and>
   GetSandboxOpts mask_example macho_no_const = Inr []"
proof -
  have e: "GetSandboxOpts mask_example macho_example = Inr [''default'', ''file*'', ''mach*'']"
    by code_simp
  have n: "Section macho_no_const ''__DATA_CONST'' ''__const'' = None"
    by (simp add: macho_no_const_def)
  show ?thesis
    using e n
      GetSandboxOpts_default_first [of mask_example macho_example
        "[''default'', ''file*'', ''mach*'']"]
      GetSandboxOpts_default_first [of mask_example macho_no_const "[]"]
    by simp
qed

section \<open>Names and global strings\<close>












section \<open>The locator\<close>

lemma index_simps:
  "index (x # xs) 0 = Inr x" "index (x # xs) (Suc n) = index xs n" "index [] n = Inl IndexOutOfRange"
  by (simp_all add: index_def)

text \<open>C6, as the code has it: for a MOVK in the window whose predecessor is a MOV with the
  same destination register, with an operand of class IMM32 and an LSL shift, the size
  recorded is \<open>imm + (imm2 << s)\<close> modulo 2^64; it is \<open>imm | (imm2 << s)\<close> whenever
  \<open>imm\<close> and \<open>imm2 << s\<close> have no set bit in common.\<close>

theorem movk_fusion_adds:
  assumes "in_window failXref ins"
    and "Operation prev = ARM64_MOV" and "Operation ins = ARM64_MOVK"
    and "Operands prev = d # src # rest" and "Registers d = rd # regs"
    and "Operands ins = d' # src' # rest'" and "Registers d' = rd # regs'"
    and "Class src' = IMM32" and "ShiftType src' = SHIFT_TYPE_LSL"
  shows "locate_step failXref (Some prev) ins (addr, sz)
           = Inr (addr, Immediate src + push_bit (unat (ShiftValue src')) (Immediate src')) \<and>
         (Immediate src AND push_bit (unat (ShiftValue src')) (Immediate src') = 0 \<longrightarrow>
          locate_step failXref (Some prev) ins (addr, sz)
           = Inr (addr, Immediate src OR push_bit (unat (ShiftValue src')) (Immediate src')))"
  using assms
  by (simp add: locate_step_def is_adrp_pair_def movk_size_def reg_of_def imm_of_def
      and_then_def index_simps disjunctive_add_eq_or)

theorem movk_fusion_adds_witness:
  "in_window 0x1008 (movk_insn 0x1004 0 5 16) \<and>
   (0x1234 :: u64) AND push_bit 16 5 = 0 \<and>
   locate_step 0x1008 (Some (mov_insn 0x1000 0 0x1234)) (movk_insn 0x1004 0 5 16) (0, 0)
     = Inr (0, 0x51234)"
  using movk_fusion_adds [where failXref = "0x1008" and ins = "movk_insn 0x1004 0 5 16"
      and prev = "mov_insn 0x1000 0 0x1234" and d = "reg_operand 0"
      and src = "imm_operand IMM64 0x1234" and rest = "[]" and rd = 0 and regs = "[]"
      and d' = "reg_operand 0" and src' = "lsl_operand 5 16" and rest' = "[]"
      and regs' = "[]" and addr = 0 and sz = 0]
  by (simp add: in_window_def mov_insn_def movk_insn_def reg_operand_def imm_operand_def
      lsl_operand_def)

text \<open>C6 as stated fails where the two immediates share a bit: after \<open>MOV X0, #0x10000\<close>
  the instruction \<open>MOVK X0, #1, LSL #16\<close> records the size 0x20000, and
  \<open>0x10000 | (1 << 16)\<close> is 0x10000.\<close>

theorem movk_overlap_counterexample:
  "locate_step 0x1008 (Some (mov_insn 0x1000 0 0x10000)) (movk_insn 0x1004 0 1 16) (0, 0)
     = Inr (0, 0x20000) \<and>
   (0x10000 :: u64) OR push_bit 16 1 = 0x10000"
  by code_simp




















section \<open>The scenarios of the specification\<close>

lemma scenario_1:
  "unat (profileSize (decode_collection (take 12 header_scenario_1))) = 8 \<and>
   globalVarStart (decode_collection (take 12 header_scenario_1)) = 0x0E \<and>
   globalVarEnd (decode_collection (take 12 header_scenario_1)) = 0x10 \<and>
   opNodeStartTmp (decode_collection (take 12 header_scenario_1)) = 0x18 \<and>
   opNodeStartDelta 0x18 = 0 \<and>
   opNodeStart (decode_collection (take 12 header_scenario_1)) = 0x18 \<and>
   baseAddr (decode_collection (take 12 header_scenario_1)) = 0x38"
  by code_simp

lemma scenario_2: "opNodeStartDelta 0x1A = 6 \<and> align 0x1A = 0x20"
  by code_simp

lemma scenario_3:
  "getTag 0x0017FFFFFFF00000 = 0x17 \<and> unTag 0x0017FFFFFFF00000 = 0xFFFFFFFFFFF00000 \<and>
   getTag 0x0010FFFFFFF00000 = 0x10"
  by code_simp

end
